theory Spec2Isabelle
  imports Complex_Main
begin

section \<open>JavaScript values used by GeoSnap\<close>

text \<open>
  A JavaScript \<open>number\<close> is kept as a finite value, \<open>NaN\<close> or one of the two infinities.
  GeoSnap never does arithmetic on the numbers it reads from a tag or from the AI reply: it
  tests them for truthiness and copies them. The finite values are therefore kept as reals
  (\<open>+0\<close> and \<open>-0\<close> are both \<open>Real_val 0\<close>; both are falsy).
\<close>

datatype number = Real_val real | NaN | Infinity | Neg_Infinity

fun isFinite :: "number \<Rightarrow> bool" where
  "isFinite (Real_val x) = True"
| "isFinite NaN = False"
| "isFinite Infinity = False"
| "isFinite Neg_Infinity = False"

text \<open>Truthiness: \<open>0\<close> and \<open>NaN\<close> are falsy numbers, the empty string is the falsy string.\<close>

fun truthy_number :: "number \<Rightarrow> bool" where
  "truthy_number (Real_val x) = (x \<noteq> 0)"
| "truthy_number NaN = False"
| "truthy_number Infinity = True"
| "truthy_number Neg_Infinity = True"

definition truthy_string :: "string \<Rightarrow> bool" where
  "truthy_string s = (s \<noteq> [])"

text \<open>
  An optional property is an \<open>option\<close>: \<open>None\<close> is \<open>undefined\<close>, which is falsy.
  \<open>js_or\<close> is the operator \<open>||\<close>: the left operand when it is truthy, else the right one.
\<close>

fun truthy :: "('a \<Rightarrow> bool) \<Rightarrow> 'a option \<Rightarrow> bool" where
  "truthy t None = False"
| "truthy t (Some v) = t v"

definition js_or :: "('a \<Rightarrow> bool) \<Rightarrow> 'a option \<Rightarrow> 'a option \<Rightarrow> 'a option" where
  "js_or t a b = (if truthy t a then a else b)"

text \<open>What a \<open>throw\<close> or a rejected promise carries.\<close>

datatype exn = Error string | TypeError string | SyntaxError string | Rejected string

datatype jsdate = Date int

record File =
  name :: string
  type :: string
  bytes :: "nat list"

section \<open>The types of \<open>types.ts\<close>\<close>

record GeoLocation =
  lat :: number
  lng :: number

record LocationInfo =
  city :: "string option"
  state :: "string option"
  country :: "string option"
  displayName :: string

text \<open>The field \<open>make\<close> is \<open>cameraMake\<close> here: a record reserves the name \<open>make\<close>.\<close>

record ExifDetails =
  cameraMake :: "string option"
  model :: "string option"
  exposureTime :: "number option"
  fNumber :: "number option"
  iso :: "number option"
  focalLength :: "number option"
  lensModel :: "string option"

record AIAnalysisResult =
  locationName :: string
  lat :: "number option"
  lng :: "number option"
  confidence :: number
  reasoning :: string

text \<open>The field \<open>file\<close> is \<open>imageFile\<close> here: \<open>file\<close> is a keyword.\<close>

record ProcessedImage =
  imageFile :: File
  previewUrl :: string
  exifLocation :: "GeoLocation option"
  exifDate :: "jsdate option"
  exifDetails :: "ExifDetails option"
  locationInfo :: "LocationInfo option"
  gpsFound :: bool
  aiGuessed :: "bool option"
  aiConfidence :: "number option"
  aiReasoning :: "string option"

datatype AppState = IDLE | ANALYZING | RESULT | ERROR

section \<open>\<open>services/locationService.ts\<close>: \<open>extractImageMetadata\<close>\<close>

text \<open>
  The object \<open>exifr.parse\<close> resolves to, with the properties the extractor reads.
  \<open>exifr.parse\<close> itself is a library outside the repository: it is a parameter
  \<open>parse\<close>, which throws (\<open>Inl\<close>), resolves to \<open>undefined\<close> when the image has no
  metadata block (\<open>Inr None\<close>), or resolves to the tags (\<open>Inr (Some output)\<close>).
\<close>

record ExifrOutput =
  latitude :: "number option"
  longitude :: "number option"
  DateTimeOriginal :: "jsdate option"
  CreateDate :: "jsdate option"
  Make :: "string option"
  Model :: "string option"
  ExposureTime :: "number option"
  FNumber :: "number option"
  ISO :: "number option"
  FocalLength :: "number option"
  LensModel :: "string option"

record Metadata =
  location :: "GeoLocation option"
  date :: "jsdate option"
  exifDetails :: "ExifDetails option"

text \<open>Lines 16 to 22: \<open>if (output && output.latitude && output.longitude)\<close>.\<close>

definition extract_location :: "ExifrOutput option \<Rightarrow> GeoLocation option" where
  "extract_location output =
     (case output of
        None \<Rightarrow> None
      | Some out \<Rightarrow>
          (case (latitude out, longitude out) of
             (Some la, Some lo) \<Rightarrow>
               if truthy_number la \<and> truthy_number lo
               then Some \<lparr>GeoLocation.lat = la, lng = lo\<rparr>
               else None
           | _ \<Rightarrow> None))"

text \<open>Lines 24 to 29. A \<open>Date\<close> is an object, so a present date is truthy.\<close>

definition extract_date :: "ExifrOutput option \<Rightarrow> jsdate option" where
  "extract_date output =
     (case output of
        None \<Rightarrow> None
      | Some out \<Rightarrow>
          if truthy (\<lambda>d. True) (DateTimeOriginal out) then DateTimeOriginal out
          else if truthy (\<lambda>d. True) (CreateDate out) then CreateDate out
          else None)"

text \<open>Line 45: \<open>Object.values(exifDetails).some(val => val !== undefined)\<close>.\<close>

definition hasData :: "ExifDetails \<Rightarrow> bool" where
  "hasData d =
     (cameraMake d \<noteq> None \<or> model d \<noteq> None \<or> exposureTime d \<noteq> None \<or> fNumber d \<noteq> None \<or>
      iso d \<noteq> None \<or> focalLength d \<noteq> None \<or> lensModel d \<noteq> None)"

text \<open>Lines 31 to 47.\<close>

definition extract_details :: "ExifrOutput option \<Rightarrow> ExifDetails option" where
  "extract_details output =
     (case output of
        None \<Rightarrow> None
      | Some out \<Rightarrow>
          (let details = \<lparr>cameraMake = Make out, model = Model out,
                          exposureTime = ExposureTime out, fNumber = FNumber out,
                          iso = ISO out, focalLength = FocalLength out,
                          lensModel = LensModel out\<rparr>
           in if \<not> hasData details then None else Some details))"

text \<open>
  The body of the \<open>try\<close> block (lines 13 to 49): the only statement that can throw is the call
  of \<open>exifr.parse\<close>.
\<close>

definition extract_try :: "(File \<Rightarrow> exn + ExifrOutput option) \<Rightarrow> File \<Rightarrow> exn + Metadata" where
  "extract_try parse f =
     (case parse f of
        Inl error \<Rightarrow> Inl error
      | Inr output \<Rightarrow>
          Inr \<lparr>location = extract_location output, date = extract_date output,
               exifDetails = extract_details output\<rparr>)"

text \<open>
  The whole function: the \<open>catch\<close> block (lines 50 to 53) turns every exception of the body
  into the result with three \<open>null\<close>s. The result type keeps an error branch, so that
  ``the promise never rejects'' is a statement about the function and not about its type.
\<close>

definition extractImageMetadata :: "(File \<Rightarrow> exn + ExifrOutput option) \<Rightarrow> File \<Rightarrow> exn + Metadata" where
  "extractImageMetadata parse f =
     (case extract_try parse f of
        Inl error \<Rightarrow> Inr \<lparr>location = None, date = None, exifDetails = None\<rparr>
      | Inr result \<Rightarrow> Inr result)"

section \<open>\<open>services/locationService.ts\<close>: \<open>reverseGeocode\<close>\<close>

text \<open>
  The request of line 63: a GET on the Nominatim \<open>reverse\<close> endpoint whose query carries the
  format, the two coordinates and the zoom. \<open>fetch\<close> is a parameter: it rejects on a network
  error (\<open>Inl\<close>) or resolves to a response, whose \<open>json()\<close> rejects when the body is not JSON.
  The body is read at the type the code relies on: \<open>null\<close> (\<open>None\<close>) or an object with an
  optional \<open>address\<close> object and an optional \<open>display_name\<close>, the address fields being
  strings.
\<close>

record GeocodeRequest =
  endpoint :: string
  format :: string
  queryLat :: number
  queryLon :: number
  zoom :: nat

record Address =
  city :: "string option"
  town :: "string option"
  village :: "string option"
  hamlet :: "string option"
  state :: "string option"
  region :: "string option"
  country :: "string option"

record NominatimData =
  address :: "Address option"
  display_name :: "string option"

record Response =
  ok :: bool
  json :: "exn + NominatimData option"

definition nominatim_request :: "GeoLocation \<Rightarrow> GeocodeRequest" where
  "nominatim_request coords =
     \<lparr>endpoint = ''https://nominatim.openstreetmap.org/reverse'', format = ''json'',
      queryLat = GeoLocation.lat coords, queryLon = GeoLocation.lng coords, zoom = 10\<rparr>"

text \<open>Line 72, \<open>data.address || {}\<close>: an object is truthy, so only a missing address is replaced.\<close>

definition empty_address :: Address where
  "empty_address = \<lparr>city = None, town = None, village = None, hamlet = None, state = None,
                     region = None, country = None\<rparr>"

text \<open>Line 73: \<open>address.city || address.town || address.village || address.hamlet\<close>.\<close>

definition resolve_city :: "Address \<Rightarrow> string option" where
  "resolve_city a =
     js_or truthy_string
       (js_or truthy_string (js_or truthy_string (Address.city a) (town a)) (village a))
       (hamlet a)"

text \<open>A value inside a template literal: \<open>undefined\<close> prints as the word.\<close>

definition template_string :: "string option \<Rightarrow> string" where
  "template_string v = (case v of None \<Rightarrow> ''undefined'' | Some s \<Rightarrow> s)"

text \<open>Lines 72 to 82, on the parsed body.\<close>

definition build_location_info :: "NominatimData \<Rightarrow> LocationInfo" where
  "build_location_info d =
     (let a = (case address d of None \<Rightarrow> empty_address | Some a \<Rightarrow> a);
          c = resolve_city a;
          st = js_or truthy_string (Address.state a) (region a);
          co = Address.country a
      in \<lparr>LocationInfo.city = c, state = st, country = co,
          displayName =
            (case display_name d of
               None \<Rightarrow> template_string c @ '', '' @ template_string co
             | Some n \<Rightarrow>
                 if truthy_string n then n
                 else template_string c @ '', '' @ template_string co)\<rparr>)"

text \<open>The body of the \<open>try\<close> block, lines 61 to 82.\<close>

definition reverseGeocode_try :: "(GeocodeRequest \<Rightarrow> exn + Response) \<Rightarrow> GeoLocation \<Rightarrow> exn + LocationInfo" where
  "reverseGeocode_try fetch coords =
     (case fetch (nominatim_request coords) of
        Inl error \<Rightarrow> Inl error
      | Inr response \<Rightarrow>
          if \<not> ok response then Inl (Error ''Geocoding failed'')
          else
            (case json response of
               Inl error \<Rightarrow> Inl error
             | Inr None \<Rightarrow> Inl (TypeError ''Cannot read properties of null'')
             | Inr (Some d) \<Rightarrow> Inr (build_location_info d)))"

text \<open>The whole function: the \<open>catch\<close> block (lines 83 to 86) returns \<open>null\<close>.\<close>

definition reverseGeocode :: "(GeocodeRequest \<Rightarrow> exn + Response) \<Rightarrow> GeoLocation \<Rightarrow> exn + LocationInfo option" where
  "reverseGeocode fetch coords =
     (case reverseGeocode_try fetch coords of
        Inl error \<Rightarrow> Inr None
      | Inr info \<Rightarrow> Inr (Some info))"

text \<open>
  The three ways the geocoding request fails, as the specification lists them: a network
  error, a response that is not a success, a body that is not JSON.
\<close>

definition geocoding_fails :: "(GeocodeRequest \<Rightarrow> exn + Response) \<Rightarrow> GeoLocation \<Rightarrow> bool" where
  "geocoding_fails fetch coords =
     (case fetch (nominatim_request coords) of
        Inl error \<Rightarrow> True
      | Inr response \<Rightarrow> \<not> ok response \<or> isl (json response))"

text \<open>The first non-empty entry of a list of optional strings, in the specification's words.\<close>

fun first_non_empty :: "string option list \<Rightarrow> string option" where
  "first_non_empty [] = None"
| "first_non_empty (None # xs) = first_non_empty xs"
| "first_non_empty (Some s # xs) = (if s \<noteq> [] then Some s else first_non_empty xs)"

section \<open>\<open>services/geminiService.ts\<close>\<close>

text \<open>\<open>String.prototype.split\<close> on a one-character separator.\<close>

fun split_on :: "char \<Rightarrow> string \<Rightarrow> string list" where
  "split_on c [] = [[]]"
| "split_on c (x # xs) =
     (if x = c then [] # split_on c xs
      else (case split_on c xs of [] \<Rightarrow> [[x]] | p # ps \<Rightarrow> (x # p) # ps))"

text \<open>
  \<open>fileToGenerativePart\<close>: the \<open>FileReader\<close> is a parameter that yields the data URL or
  fails; the function keeps what stands between the first and the second comma
  (\<open>split(',')[1]\<close>, \<open>undefined\<close> when the URL has no comma).
\<close>

definition fileToGenerativePart :: "(File \<Rightarrow> exn + string) \<Rightarrow> File \<Rightarrow> exn + string option" where
  "fileToGenerativePart readAsDataURL f =
     (case readAsDataURL f of
        Inl error \<Rightarrow> Inl error
      | Inr base64String \<Rightarrow>
          Inr (case split_on CHR '','' base64String of
                 p # base64Data # ps \<Rightarrow> Some base64Data
               | _ \<Rightarrow> None))"

text \<open>
  The request handed to \<open>ai.models.generateContent\<close> (lines 41 to 68), with the key the
  client was built with. The response schema is a constant of the source and is not repeated.
\<close>

record AIRequest =
  apiKey :: string
  aiModel :: string
  mimeType :: string
  inlineData :: "string option"
  promptText :: string
  responseMimeType :: string

record AIResponse =
  responseText :: "string option"

definition prompt :: string where
  "prompt =
     [CHR 0x0A] @
     ''    Analyze this image visually to determine where it was taken. '' @ [CHR 0x0A] @
     ''    Look for landmarks, architectural styles, road signs, license plates, vegetation, language, and geography.'' @ [CHR 0x0A] @
     ''    '' @ [CHR 0x0A] @
     ''    Return a JSON object with your best guess.'' @ [CHR 0x0A] @
     ''    If you are not sure, provide a low confidence score but still try to guess the country or region.'' @ [CHR 0x0A] @
     ''  ''"

definition ai_request :: "string \<Rightarrow> File \<Rightarrow> string option \<Rightarrow> AIRequest" where
  "ai_request key f base64Data =
     \<lparr>apiKey = key, aiModel = ''gemini-3-flash-preview'', mimeType = type f,
      inlineData = base64Data, promptText = prompt, responseMimeType = ''application/json''\<rparr>"

text \<open>
  \<open>guessLocationWithAI\<close>. The parameters are the environment variable \<open>API_KEY\<close>, the file
  reader, the network call \<open>generateContent\<close> and \<open>JSON.parse\<close> read at the type
  \<open>AIAnalysisResult\<close> the source casts to. The result is what the promise settles to,
  paired with the list of requests sent over the network, in order.
\<close>

definition guessLocationWithAI ::
  "string option \<Rightarrow> (File \<Rightarrow> exn + string) \<Rightarrow> (AIRequest \<Rightarrow> exn + AIResponse) \<Rightarrow>
   (string \<Rightarrow> exn + AIAnalysisResult) \<Rightarrow> File \<Rightarrow> (exn + AIAnalysisResult) \<times> AIRequest list" where
  "guessLocationWithAI API_KEY readAsDataURL generateContent JSON_parse f =
     (case API_KEY of
        None \<Rightarrow> (Inl (Error ''API Key is missing. Cannot perform AI analysis.''), [])
      | Some key \<Rightarrow>
          if \<not> truthy_string key
          then (Inl (Error ''API Key is missing. Cannot perform AI analysis.''), [])
          else
            (case fileToGenerativePart readAsDataURL f of
               Inl error \<Rightarrow> (Inl error, [])
             | Inr base64Data \<Rightarrow>
                 (let request = ai_request key f base64Data in
                  case generateContent request of
                    Inl error \<Rightarrow> (Inl error, [request])
                  | Inr response \<Rightarrow>
                      (case responseText response of
                         None \<Rightarrow> (Inl (Error ''No response from AI''), [request])
                       | Some txt \<Rightarrow>
                           if \<not> truthy_string txt
                           then (Inl (Error ''No response from AI''), [request])
                           else
                             (case JSON_parse txt of
                                Inl error \<Rightarrow> (Inl error, [request])
                              | Inr result \<Rightarrow> (Inr result, [request]))))))"

section \<open>\<open>App.tsx\<close>: the state and its handlers\<close>

text \<open>
  The four pieces of React state the handlers below read and write. \<open>processFile\<close> and
  \<open>handleAiGuess\<close> are given first as one function from the state before the call to the
  state after the promise has settled, with no other event in between; their two halves,
  before and after the \<open>await\<close>, follow.
\<close>

record App =
  appState :: AppState
  data :: "ProcessedImage option"
  errorMsg :: "string option"
  showStripper :: bool

definition initial_app :: App where
  "initial_app = \<lparr>appState = IDLE, data = None, errorMsg = None, showStripper = False\<rparr>"

text \<open>
  \<open>processFile\<close> (lines 135 to 161). \<open>createObjectURL\<close> is the browser's. The function has
  no \<open>catch\<close>: were one of the two awaited services to reject, the state would stay as the
  first two setters left it.
\<close>

definition processFile ::
  "(File \<Rightarrow> string) \<Rightarrow> (File \<Rightarrow> exn + ExifrOutput option) \<Rightarrow> (GeocodeRequest \<Rightarrow> exn + Response) \<Rightarrow>
   File \<Rightarrow> App \<Rightarrow> App" where
  "processFile createObjectURL parse fetch f s =
     (let s1 = s\<lparr>appState := ANALYZING, errorMsg := None\<rparr>;
          url = createObjectURL f
      in case extractImageMetadata parse f of
           Inl error \<Rightarrow> s1
         | Inr m \<Rightarrow>
             (case (case location m of
                      None \<Rightarrow> Inr None
                    | Some loc \<Rightarrow> reverseGeocode fetch loc) of
                Inl error \<Rightarrow> s1
              | Inr info \<Rightarrow>
                  s1\<lparr>data := Some \<lparr>imageFile = f, previewUrl = url,
                                     exifLocation = location m, exifDate = date m,
                                     exifDetails = Metadata.exifDetails m, locationInfo = info,
                                     gpsFound = (location m \<noteq> None), aiGuessed = None,
                                     aiConfidence = None, aiReasoning = None\<rparr>,
                     appState := RESULT\<rparr>))"

text \<open>The updater passed to \<open>setData\<close> in \<open>handleAiGuess\<close> (lines 170 to 180).\<close>

definition merge_ai_guess :: "AIAnalysisResult \<Rightarrow> ProcessedImage option \<Rightarrow> ProcessedImage option" where
  "merge_ai_guess result prev =
     (case prev of
        None \<Rightarrow> None
      | Some p \<Rightarrow>
          Some (p\<lparr>exifLocation :=
                     (case (AIAnalysisResult.lat result, AIAnalysisResult.lng result) of
                        (Some la, Some lo) \<Rightarrow>
                          if truthy_number la \<and> truthy_number lo
                          then Some \<lparr>GeoLocation.lat = la, lng = lo\<rparr>
                          else None
                      | _ \<Rightarrow> None),
                   locationInfo :=
                     Some \<lparr>LocationInfo.city = None, state = None, country = None,
                           displayName = locationName result\<rparr>,
                   aiGuessed := Some True,
                   aiConfidence := Some (confidence result),
                   aiReasoning := Some (reasoning result)\<rparr>))"

text \<open>\<open>handleAiGuess\<close> (lines 163 to 187).\<close>

definition handleAiGuess ::
  "string option \<Rightarrow> (File \<Rightarrow> exn + string) \<Rightarrow> (AIRequest \<Rightarrow> exn + AIResponse) \<Rightarrow>
   (string \<Rightarrow> exn + AIAnalysisResult) \<Rightarrow> App \<Rightarrow> App" where
  "handleAiGuess API_KEY readAsDataURL generateContent JSON_parse s =
     (case data s of
        None \<Rightarrow> s
      | Some d \<Rightarrow>
          (let s1 = s\<lparr>appState := ANALYZING\<rparr> in
           case fst (guessLocationWithAI API_KEY readAsDataURL generateContent JSON_parse
                       (imageFile d)) of
             Inr result \<Rightarrow> s1\<lparr>data := merge_ai_guess result (data s1), appState := RESULT\<rparr>
           | Inl err \<Rightarrow>
               s1\<lparr>errorMsg := Some ''AI analysis failed. Please try again or use a different image.'',
                  appState := RESULT\<rparr>))"

text \<open>\<open>resetApp\<close> (lines 189 to 196) and the click handler of the stripper toggle (lines 291 to 297).\<close>

definition resetApp :: "App \<Rightarrow> App" where
  "resetApp s = s\<lparr>appState := IDLE, data := None, errorMsg := None, showStripper := False\<rparr>"

definition toggleStripper :: "App \<Rightarrow> App" where
  "toggleStripper s =
     (let s1 = s\<lparr>showStripper := \<not> showStripper s\<rparr>
      in if \<not> showStripper s then s1\<lparr>appState := IDLE, data := None\<rparr> else s1)"

text \<open>
  The button ``Guess Location with AI'' is the only caller of \<open>handleAiGuess\<close>. It is
  rendered inside the result panel (line 589) under \<open>!data.gpsFound && !data.aiGuessed\<close>
  (line 622).
\<close>

definition ai_button_rendered :: "App \<Rightarrow> bool" where
  "ai_button_rendered s =
     (\<not> showStripper s \<and> appState s = RESULT \<and>
      (case data s of
         None \<Rightarrow> False
       | Some d \<Rightarrow> \<not> gpsFound d \<and> \<not> truthy (\<lambda>b. b) (aiGuessed d)))"

text \<open>
  The two halves of \<open>processFile\<close>: the setters of lines 136 and 137 run at the call; the
  record is written (lines 150 to 160) when the extraction and the geocoding have settled.
  Nothing is written in between.
\<close>

definition processFile_start :: "App \<Rightarrow> App" where
  "processFile_start s = s\<lparr>appState := ANALYZING, errorMsg := None\<rparr>"

definition processFile_settle ::
  "(File \<Rightarrow> string) \<Rightarrow> (File \<Rightarrow> exn + ExifrOutput option) \<Rightarrow> (GeocodeRequest \<Rightarrow> exn + Response) \<Rightarrow>
   File \<Rightarrow> App \<Rightarrow> App" where
  "processFile_settle createObjectURL parse fetch f s =
     (let url = createObjectURL f
      in case extractImageMetadata parse f of
           Inl error \<Rightarrow> s
         | Inr m \<Rightarrow>
             (case (case location m of
                      None \<Rightarrow> Inr None
                    | Some loc \<Rightarrow> reverseGeocode fetch loc) of
                Inl error \<Rightarrow> s
              | Inr info \<Rightarrow>
                  s\<lparr>data := Some \<lparr>imageFile = f, previewUrl = url,
                                    exifLocation = location m, exifDate = date m,
                                    exifDetails = Metadata.exifDetails m, locationInfo = info,
                                    gpsFound = (location m \<noteq> None), aiGuessed = None,
                                    aiConfidence = None, aiReasoning = None\<rparr>,
                    appState := RESULT\<rparr>))"

text \<open>
  The second half of \<open>handleAiGuess\<close> (lines 168 to 186), for the file the call was made
  with. The updater of \<open>setData\<close> receives the record that is current when the promise
  settles, which is \<open>data s\<close> of the state the half is applied to.
\<close>

definition handleAiGuess_settle ::
  "string option \<Rightarrow> (File \<Rightarrow> exn + string) \<Rightarrow> (AIRequest \<Rightarrow> exn + AIResponse) \<Rightarrow>
   (string \<Rightarrow> exn + AIAnalysisResult) \<Rightarrow> File \<Rightarrow> App \<Rightarrow> App" where
  "handleAiGuess_settle API_KEY readAsDataURL generateContent JSON_parse f s =
     (case fst (guessLocationWithAI API_KEY readAsDataURL generateContent JSON_parse f) of
        Inr result \<Rightarrow> s\<lparr>data := merge_ai_guess result (data s), appState := RESULT\<rparr>
      | Inl err \<Rightarrow>
          s\<lparr>errorMsg := Some ''AI analysis failed. Please try again or use a different image.'',
            appState := RESULT\<rparr>)"

text \<open>
  The views: the upload zone, with its drop handler and its file input, belongs to the idle
  view (line 445); the header, with the logo that resets and the stripper toggle, is always
  rendered; the stripper panel is rendered under \<open>showStripper\<close> (line 322).
\<close>

definition upload_zone_rendered :: "App \<Rightarrow> bool" where
  "upload_zone_rendered s = (\<not> showStripper s \<and> appState s = IDLE)"

section \<open>Runs of the interface\<close>

text \<open>
  A run keeps, beside the React state, the promises in flight: the AI calls, each with the
  file it was made with (\<open>data.file\<close> at the click); the \<open>processFile\<close> calls, each with its
  file; the image URLs being fetched by \<open>processImageUrl\<close>. \<open>staleReply\<close> is a history
  variable, not part of the program: it records that some AI reply has been merged into the
  record of another file than the one the call was made with.
\<close>

record Run =
  app :: App
  guessesInFlight :: "File list"
  uploadsInFlight :: "File list"
  urlsInFlight :: "string list"
  staleReply :: bool

definition initial_run :: Run where
  "initial_run = \<lparr>app = initial_app, guessesInFlight = [], uploadsInFlight = [],
                  urlsInFlight = [], staleReply = False\<rparr>"

definition begin_upload :: "File \<Rightarrow> Run \<Rightarrow> Run" where
  "begin_upload f r =
     r\<lparr>app := processFile_start (app r), uploadsInFlight := f # uploadsInFlight r\<rparr>"

definition settle_upload ::
  "(File \<Rightarrow> string) \<Rightarrow> (File \<Rightarrow> exn + ExifrOutput option) \<Rightarrow> (GeocodeRequest \<Rightarrow> exn + Response) \<Rightarrow>
   File \<Rightarrow> Run \<Rightarrow> Run" where
  "settle_upload createObjectURL parse fetch f r =
     r\<lparr>app := processFile_settle createObjectURL parse fetch f (app r),
       uploadsInFlight := remove1 f (uploadsInFlight r)\<rparr>"

text \<open>The click on the AI button: lines 164 to 168, up to the \<open>await\<close>.\<close>

definition begin_guess :: "Run \<Rightarrow> Run" where
  "begin_guess r =
     (case data (app r) of
        None \<Rightarrow> r
      | Some d \<Rightarrow>
          r\<lparr>app := (app r)\<lparr>appState := ANALYZING\<rparr>,
            guessesInFlight := imageFile d # guessesInFlight r\<rparr>)"

definition reply_is_stale :: "exn + AIAnalysisResult \<Rightarrow> File \<Rightarrow> App \<Rightarrow> bool" where
  "reply_is_stale outcome f s =
     (case outcome of
        Inl err \<Rightarrow> False
      | Inr result \<Rightarrow> (case data s of None \<Rightarrow> False | Some d \<Rightarrow> imageFile d \<noteq> f))"

definition settle_guess ::
  "string option \<Rightarrow> (File \<Rightarrow> exn + string) \<Rightarrow> (AIRequest \<Rightarrow> exn + AIResponse) \<Rightarrow>
   (string \<Rightarrow> exn + AIAnalysisResult) \<Rightarrow> File \<Rightarrow> Run \<Rightarrow> Run" where
  "settle_guess API_KEY readAsDataURL generateContent JSON_parse f r =
     r\<lparr>app := handleAiGuess_settle API_KEY readAsDataURL generateContent JSON_parse f (app r),
       guessesInFlight := remove1 f (guessesInFlight r),
       staleReply :=
         (staleReply r \<or>
          reply_is_stale
            (fst (guessLocationWithAI API_KEY readAsDataURL generateContent JSON_parse f))
            f (app r))\<rparr>"

definition click_reset :: "Run \<Rightarrow> Run" where
  "click_reset r = r\<lparr>app := resetApp (app r)\<rparr>"

definition click_toggle :: "Run \<Rightarrow> Run" where
  "click_toggle r = r\<lparr>app := toggleStripper (app r)\<rparr>"

text \<open>
  \<open>processImageUrl\<close> (lines 115 to 133): its setters at the call, its \<open>catch\<close> when the
  image cannot be fetched, and the call of \<open>processFile\<close> on the fetched file. Neither service
  awaited by \<open>processFile\<close> rejects, so the \<open>catch\<close> is entered from the fetch only.
\<close>

definition begin_url :: "string \<Rightarrow> Run \<Rightarrow> Run" where
  "begin_url u r =
     r\<lparr>app := (app r)\<lparr>appState := ANALYZING, errorMsg := None\<rparr>,
       urlsInFlight := u # urlsInFlight r\<rparr>"

definition fail_url :: "string \<Rightarrow> Run \<Rightarrow> Run" where
  "fail_url u r =
     r\<lparr>app := (app r)\<lparr>errorMsg := Some ''Failed to load image from URL. The server might block cross-origin requests.'',
                        appState := IDLE\<rparr>,
       urlsInFlight := remove1 u (urlsInFlight r)\<rparr>"

definition load_url :: "string \<Rightarrow> File \<Rightarrow> Run \<Rightarrow> Run" where
  "load_url u f r = begin_upload f (r\<lparr>urlsInFlight := remove1 u (urlsInFlight r)\<rparr>)"

text \<open>The two remaining writes of \<open>errorMsg\<close>: line 111 of \<open>handleDrop\<close>, line 251 of the stripper.\<close>

definition reject_drop :: "Run \<Rightarrow> Run" where
  "reject_drop r =
     r\<lparr>app := (app r)\<lparr>errorMsg := Some ''Please drop a valid image file or image URL.''\<rparr>\<rparr>"

definition fail_strip :: "Run \<Rightarrow> Run" where
  "fail_strip r = r\<lparr>app := (app r)\<lparr>errorMsg := Some ''Failed to process image''\<rparr>\<rparr>"

text \<open>
  The runs the interface can make. An event is a click or a drop on an element that is
  rendered, or the settling of a promise in flight; between the two halves of a handler any
  other event may take place. Each event comes with any behaviour of the browser, of the
  network and of the AI service. The parser \<open>parse\<close> is one function for the whole run: what
  the tags of a file are does not change.
\<close>

inductive reachable :: "(File \<Rightarrow> exn + ExifrOutput option) \<Rightarrow> Run \<Rightarrow> bool"
  for parse :: "File \<Rightarrow> exn + ExifrOutput option" where
  start: "reachable parse initial_run"
| upload: "reachable parse r \<Longrightarrow> upload_zone_rendered (app r) \<Longrightarrow>
           reachable parse (begin_upload f r)"
| uploaded: "reachable parse r \<Longrightarrow> f \<in> set (uploadsInFlight r) \<Longrightarrow>
             reachable parse (settle_upload createObjectURL parse fetch f r)"
| guess: "reachable parse r \<Longrightarrow> ai_button_rendered (app r) \<Longrightarrow>
          reachable parse (begin_guess r)"
| guessed: "reachable parse r \<Longrightarrow> f \<in> set (guessesInFlight r) \<Longrightarrow>
            reachable parse (settle_guess API_KEY readAsDataURL generateContent JSON_parse f r)"
| reset: "reachable parse r \<Longrightarrow> reachable parse (click_reset r)"
| toggle: "reachable parse r \<Longrightarrow> reachable parse (click_toggle r)"
| url: "reachable parse r \<Longrightarrow> upload_zone_rendered (app r) \<Longrightarrow>
        reachable parse (begin_url u r)"
| url_failed: "reachable parse r \<Longrightarrow> u \<in> set (urlsInFlight r) \<Longrightarrow>
               reachable parse (fail_url u r)"
| url_loaded: "reachable parse r \<Longrightarrow> u \<in> set (urlsInFlight r) \<Longrightarrow>
               reachable parse (load_url u f r)"
| drop_rejected: "reachable parse r \<Longrightarrow> upload_zone_rendered (app r) \<Longrightarrow>
                  reachable parse (reject_drop r)"
| strip_failed: "reachable parse r \<Longrightarrow> showStripper (app r) \<Longrightarrow>
                 reachable parse (fail_strip r)"

text \<open>The coordinate the embedded tags of a file give, through the extractor.\<close>

definition embedded_location :: "(File \<Rightarrow> exn + ExifrOutput option) \<Rightarrow> File \<Rightarrow> GeoLocation option" where
  "embedded_location parse f =
     (case extractImageMetadata parse f of Inl error \<Rightarrow> None | Inr m \<Rightarrow> location m)"

text \<open>
  The ways the AI call fails, as the specification lists them: the credential is missing; or,
  with a credential and the image read, the network call fails, the response has no text, or
  the text does not parse.
\<close>

definition ai_call_fails ::
  "string option \<Rightarrow> (File \<Rightarrow> exn + string) \<Rightarrow> (AIRequest \<Rightarrow> exn + AIResponse) \<Rightarrow>
   (string \<Rightarrow> exn + AIAnalysisResult) \<Rightarrow> File \<Rightarrow> bool" where
  "ai_call_fails API_KEY readAsDataURL generateContent JSON_parse f =
     (case API_KEY of
        None \<Rightarrow> True
      | Some key \<Rightarrow>
          key = [] \<or>
          (case fileToGenerativePart readAsDataURL f of
             Inl error \<Rightarrow> False
           | Inr base64Data \<Rightarrow>
               (case generateContent (ai_request key f base64Data) of
                  Inl error \<Rightarrow> True
                | Inr response \<Rightarrow>
                    (case responseText response of
                       None \<Rightarrow> True
                     | Some txt \<Rightarrow> txt = [] \<or> isl (JSON_parse txt)))))"

text \<open>The camera tags of the image, as the claim about \<open>exifDetails\<close> names them.\<close>

definition camera_tag_present :: "ExifrOutput \<Rightarrow> bool" where
  "camera_tag_present out =
     (Make out \<noteq> None \<or> Model out \<noteq> None \<or> ExposureTime out \<noteq> None \<or> FNumber out \<noteq> None \<or>
      ISO out \<noteq> None \<or> FocalLength out \<noteq> None \<or> LensModel out \<noteq> None)"

text \<open>Sample inputs.\<close>

definition photo :: File where
  "photo = \<lparr>name = ''IMG_0001.jpg'', type = ''image/jpeg'', bytes = [255, 216, 255, 225]\<rparr>"

definition no_tags :: ExifrOutput where
  "no_tags = \<lparr>latitude = None, longitude = None, DateTimeOriginal = None, CreateDate = None,
              Make = None, Model = None, ExposureTime = None, FNumber = None, ISO = None,
              FocalLength = None, LensModel = None\<rparr>"

definition equator_tags :: ExifrOutput where
  "equator_tags = no_tags\<lparr>latitude := Some (Real_val 0), longitude := Some (Real_val 32.5)\<rparr>"

definition canon_tags :: ExifrOutput where
  "canon_tags = no_tags\<lparr>Make := Some ''Canon'', ISO := Some (Real_val 200)\<rparr>"

text \<open>
  The invariant of a run. Every AI call in flight was made with a file whose tags give no
  coordinate. For the record on display: \<open>gpsFound\<close> says whether the tags of the record's
  file give a coordinate; a record the AI has not guessed for shows the coordinate of its
  tags; and, as long as no reply has been merged into the record of another file, a record the
  AI has guessed for has no \<open>gpsFound\<close>.
\<close>

definition run_ok :: "(File \<Rightarrow> exn + ExifrOutput option) \<Rightarrow> Run \<Rightarrow> bool" where
  "run_ok parse r =
     ((\<forall>f \<in> set (guessesInFlight r). embedded_location parse f = None) \<and>
      (case data (app r) of
         None \<Rightarrow> True
       | Some d \<Rightarrow>
           gpsFound d = (embedded_location parse (imageFile d) \<noteq> None) \<and>
           (aiGuessed d \<noteq> Some True \<longrightarrow>
              exifLocation d = embedded_location parse (imageFile d)) \<and>
           (\<not> staleReply r \<longrightarrow> aiGuessed d = Some True \<longrightarrow> \<not> gpsFound d)))"

text \<open>More sample inputs: tags, geocoder behaviours, AI replies, records and runs.\<close>

definition sf_tags :: ExifrOutput where
  "sf_tags = no_tags\<lparr>latitude := Some (Real_val 37.7749), longitude := Some (Real_val (-122.4194))\<rparr>"

definition town_and_village :: Address where
  "town_and_village = empty_address\<lparr>town := Some ''Hallstatt'', village := Some ''Lahn''\<rparr>"

definition nominatim_ok :: "GeocodeRequest \<Rightarrow> exn + Response" where
  "nominatim_ok q = Inr \<lparr>ok = True,
       json = Inr (Some \<lparr>address = Some town_and_village, display_name = None\<rparr>)\<rparr>"

definition nominatim_down :: "GeocodeRequest \<Rightarrow> exn + Response" where
  "nominatim_down q = Inl (TypeError ''Failed to fetch'')"

definition paris_guess :: AIAnalysisResult where
  "paris_guess = \<lparr>locationName = ''Paris, France'', lat = None, lng = None,
                  confidence = Real_val 72, reasoning = ''Eiffel Tower visible''\<rparr>"

definition equator_guess :: AIAnalysisResult where
  "equator_guess = \<lparr>locationName = ''Equator monument, Uganda'', lat = Some (Real_val 0),
                    lng = Some (Real_val 32.5), confidence = Real_val 90,
                    reasoning = ''Equator line marker''\<rparr>"

definition bare_record :: ProcessedImage where
  "bare_record = \<lparr>imageFile = photo, previewUrl = ''blob:1'', exifLocation = None,
                  exifDate = Some (Date 1700000000000), exifDetails = None,
                  locationInfo = None, gpsFound = False, aiGuessed = None,
                  aiConfidence = None, aiReasoning = None\<rparr>"

definition gemini_paris :: "AIRequest \<Rightarrow> exn + AIResponse" where
  "gemini_paris q = Inr \<lparr>responseText = Some ''{...}''\<rparr>"

definition screenshot :: File where
  "screenshot = \<lparr>name = ''screenshot.png'', type = ''image/png'', bytes = [137, 80, 78, 71]\<rparr>"

definition tags_by_name :: "File \<Rightarrow> exn + ExifrOutput option" where
  "tags_by_name f = (if name f = ''IMG_0001.jpg'' then Inr (Some sf_tags) else Inr None)"

definition eiffel_guess :: AIAnalysisResult where
  "eiffel_guess = \<lparr>locationName = ''Paris, France'', lat = Some (Real_val 48.8584),
                   lng = Some (Real_val 2.2945), confidence = Real_val 72,
                   reasoning = ''Eiffel Tower visible''\<rparr>"

definition gemini_eiffel :: "File \<Rightarrow> Run \<Rightarrow> Run" where
  "gemini_eiffel = settle_guess (Some ''key'') (\<lambda>f. Inr ''data:image/png;base64,AAAA'')
                     gemini_paris (\<lambda>t. Inr eiffel_guess)"

text \<open>
  A screenshot without tags is uploaded and analysed, and the AI button is clicked. In
  \<open>timely_run\<close> the reply arrives next. In \<open>race_run\<close> the logo is clicked while the call is
  in flight, a photo with GPS tags is uploaded and analysed, and the reply arrives then.
\<close>

definition screenshot_shown :: Run where
  "screenshot_shown =
     settle_upload (\<lambda>f. ''blob:1'') tags_by_name nominatim_down screenshot
       (begin_upload screenshot initial_run)"

definition guess_pending :: Run where
  "guess_pending = begin_guess screenshot_shown"

definition timely_run :: Run where
  "timely_run = gemini_eiffel screenshot guess_pending"

definition photo_uploading :: Run where
  "photo_uploading = begin_upload photo (click_reset guess_pending)"

definition photo_shown :: Run where
  "photo_shown = settle_upload (\<lambda>f. ''blob:2'') tags_by_name nominatim_down photo photo_uploading"

definition race_run :: Run where
  "race_run = gemini_eiffel screenshot photo_shown"

section \<open>Properties of the extractor\<close>

lemma extract_location_truthy_pair:
  "truthy_number la \<and> truthy_number lo \<and> latitude out = Some la \<and> longitude out = Some lo
   \<longrightarrow> extract_location (Some out) = Some \<lparr>GeoLocation.lat = la, lng = lo\<rparr>"
  by (simp add: extract_location_def)

lemma extract_location_partial:
  "latitude out = None \<or> longitude out = None \<longrightarrow> extract_location (Some out) = None"
  by (auto simp: extract_location_def split: option.splits)

text \<open>
  Claim C1. A latitude tag and a longitude tag that are both present and finite should come
  back as the coordinate, zero included. The extractor tests the two tags for truthiness, and
  \<open>0\<close> is falsy: for an image taken on the equator, with latitude \<open>0\<close> and longitude \<open>32.5\<close>
  both present and finite, it returns no coordinate at all.
\<close>

theorem equator_coordinate_dropped:
  "latitude equator_tags = Some (Real_val 0) \<and> isFinite (Real_val 0) \<and>
   longitude equator_tags = Some (Real_val 32.5) \<and> isFinite (Real_val 32.5) \<and>
   extractImageMetadata (\<lambda>f. Inr (Some equator_tags)) photo =
     Inr \<lparr>location = None, date = None, exifDetails = None\<rparr>"
  by (simp add: extractImageMetadata_def extract_try_def extract_location_def extract_date_def
      extract_details_def hasData_def equator_tags_def no_tags_def)

text \<open>
  Claim C5. \<open>extractImageMetadata\<close> never rejects: whatever \<open>exifr.parse\<close> does on the file,
  the function returns a result; and when the image has no metadata block, or when the parser
  throws, the location, the date and the camera details of that result are all \<open>null\<close>.
\<close>

theorem extractImageMetadata_never_raises:
  "\<exists>m. extractImageMetadata parse f = Inr m \<and>
       ((parse f = Inr None \<or> (\<exists>e. parse f = Inl e)) \<longrightarrow>
          m = \<lparr>location = None, date = None, exifDetails = None\<rparr>)"
  by (auto simp: extractImageMetadata_def extract_try_def extract_location_def extract_date_def
      extract_details_def split: sum.splits)

theorem extractImageMetadata_never_raises_witness:
  "extractImageMetadata (\<lambda>f. Inl (Error ''Unknown file format'')) photo =
     Inr \<lparr>location = None, date = None, exifDetails = None\<rparr> \<and>
   extractImageMetadata (\<lambda>f. Inr None) photo =
     Inr \<lparr>location = None, date = None, exifDetails = None\<rparr>"
  using extractImageMetadata_never_raises [of "\<lambda>f. Inl (Error ''Unknown file format'')" photo]
    extractImageMetadata_never_raises [of "\<lambda>f. Inr None" photo]
  by auto

text \<open>
  Claim C6. The camera details are all or nothing. When the parser returns tags and at least
  one of make, model, exposure time, f-number, ISO, focal length and lens model is present,
  \<open>exifDetails\<close> is an object whose fields are exactly those tags (a present tag copied, an
  absent tag absent). When every one of them is absent (or there are no tags at all, or the
  parser throws), \<open>exifDetails\<close> is \<open>null\<close>, not an object of empty fields.
\<close>

theorem exifDetails_all_or_nothing:
  "\<exists>m. extractImageMetadata parse f = Inr m \<and>
       (case parse f of
          Inr (Some out) \<Rightarrow>
            (camera_tag_present out \<longrightarrow>
               Metadata.exifDetails m =
                 Some \<lparr>cameraMake = Make out, model = Model out, exposureTime = ExposureTime out,
                       fNumber = FNumber out, iso = ISO out, focalLength = FocalLength out,
                       lensModel = LensModel out\<rparr>) \<and>
            (\<not> camera_tag_present out \<longrightarrow> Metadata.exifDetails m = None)
        | _ \<Rightarrow> Metadata.exifDetails m = None)"
  by (auto simp: extractImageMetadata_def extract_try_def extract_details_def hasData_def
      camera_tag_present_def split: sum.splits option.splits)

theorem exifDetails_all_or_nothing_witness:
  "camera_tag_present canon_tags \<and> \<not> camera_tag_present no_tags \<and>
   (\<exists>m. extractImageMetadata (\<lambda>f. Inr (Some canon_tags)) photo = Inr m \<and>
        Metadata.exifDetails m =
          Some \<lparr>cameraMake = Some ''Canon'', model = None, exposureTime = None, fNumber = None,
                iso = Some (Real_val 200), focalLength = None, lensModel = None\<rparr>) \<and>
   (\<exists>m. extractImageMetadata (\<lambda>f. Inr (Some no_tags)) photo = Inr m \<and>
        Metadata.exifDetails m = None)"
  using exifDetails_all_or_nothing [of "\<lambda>f. Inr (Some canon_tags)" photo]
    exifDetails_all_or_nothing [of "\<lambda>f. Inr (Some no_tags)" photo]
  by (simp add: camera_tag_present_def canon_tags_def no_tags_def)

section \<open>Properties of the geocoder\<close>

text \<open>
  Claim C7. \<open>reverseGeocode\<close> never rejects, and it returns \<open>null\<close> whenever the request
  fails: on a network error, on a response that is not a success, on a body that is not JSON.
  \<open>processFile\<close> then still ends in the result view, with the coordinate of the tags shown and
  no place name.
\<close>

theorem reverseGeocode_fails_soft:
  "(\<exists>r. reverseGeocode fetch coords = Inr r) \<and>
   (geocoding_fails fetch coords \<longrightarrow> reverseGeocode fetch coords = Inr None) \<and>
   (geocoding_fails fetch coords \<and> embedded_location parse f = Some coords \<longrightarrow>
      appState (processFile createObjectURL parse fetch f s) = RESULT \<and>
      (\<exists>d. data (processFile createObjectURL parse fetch f s) = Some d \<and>
           exifLocation d = Some coords \<and> locationInfo d = None \<and> gpsFound d))"
proof (intro conjI impI)
  show "\<exists>r. reverseGeocode fetch coords = Inr r"
    by (simp add: reverseGeocode_def split: sum.splits)
next
  assume "geocoding_fails fetch coords"
  then show "reverseGeocode fetch coords = Inr None"
    by (auto simp: geocoding_fails_def reverseGeocode_def reverseGeocode_try_def isl_def
        split: sum.splits option.splits)
next
  assume a: "geocoding_fails fetch coords \<and> embedded_location parse f = Some coords"
  then have g: "reverseGeocode fetch coords = Inr None"
    by (auto simp: geocoding_fails_def reverseGeocode_def reverseGeocode_try_def isl_def
        split: sum.splits option.splits)
  from a obtain m where m: "extractImageMetadata parse f = Inr m" "location m = Some coords"
    by (auto simp: embedded_location_def split: sum.splits)
  show "appState (processFile createObjectURL parse fetch f s) = RESULT"
    by (simp add: processFile_def m g)
  show "\<exists>d. data (processFile createObjectURL parse fetch f s) = Some d \<and>
           exifLocation d = Some coords \<and> locationInfo d = None \<and> gpsFound d"
    by (simp add: processFile_def m g)
qed

theorem reverseGeocode_fails_soft_witness:
  "geocoding_fails nominatim_down \<lparr>GeoLocation.lat = Real_val 37.7749, lng = Real_val (-122.4194)\<rparr> \<and>
   embedded_location (\<lambda>f. Inr (Some sf_tags)) photo =
     Some \<lparr>GeoLocation.lat = Real_val 37.7749, lng = Real_val (-122.4194)\<rparr> \<and>
   reverseGeocode nominatim_down \<lparr>GeoLocation.lat = Real_val 37.7749, lng = Real_val (-122.4194)\<rparr> = Inr None \<and>
   appState (processFile (\<lambda>f. ''blob:1'') (\<lambda>f. Inr (Some sf_tags)) nominatim_down photo initial_app) = RESULT"
proof -
  have g: "geocoding_fails nominatim_down \<lparr>GeoLocation.lat = Real_val 37.7749, lng = Real_val (-122.4194)\<rparr>"
    by (simp add: geocoding_fails_def nominatim_down_def)
  have e: "embedded_location (\<lambda>f. Inr (Some sf_tags)) photo =
             Some \<lparr>GeoLocation.lat = Real_val 37.7749, lng = Real_val (-122.4194)\<rparr>"
    by (simp add: embedded_location_def extractImageMetadata_def extract_try_def
        extract_location_def sf_tags_def no_tags_def)
  show ?thesis
    using g e reverseGeocode_fails_soft [of nominatim_down
        "\<lparr>GeoLocation.lat = Real_val 37.7749, lng = Real_val (-122.4194)\<rparr>"
        "\<lambda>f. Inr (Some sf_tags)" photo "\<lambda>f. ''blob:1''" initial_app]
    by simp
qed

lemma js_or_first_non_empty:
  "js_or truthy_string a b = (case a of Some s \<Rightarrow> if s \<noteq> [] then a else b | None \<Rightarrow> b)"
  by (simp add: js_or_def truthy_string_def split: option.splits)

text \<open>
  Claim C8. On a successful response with an address, the city of the result is the first
  non-empty one of \<open>city\<close>, \<open>town\<close>, \<open>village\<close>, \<open>hamlet\<close> (and is not a non-empty string
  when all four are missing or empty). In particular an address with no \<open>city\<close>, a non-empty
  \<open>town\<close> and a \<open>village\<close> resolves to the town.
\<close>

theorem city_precedence:
  assumes "fetch (nominatim_request coords) = Inr response" and "ok response"
    and "json response = Inr (Some d)" and "address d = Some a"
  shows "\<exists>info. reverseGeocode fetch coords = Inr (Some info) \<and>
           (first_non_empty [Address.city a, town a, village a, hamlet a] \<noteq> None \<longrightarrow>
              LocationInfo.city info =
                first_non_empty [Address.city a, town a, village a, hamlet a]) \<and>
           (first_non_empty [Address.city a, town a, village a, hamlet a] = None \<longrightarrow>
              \<not> truthy truthy_string (LocationInfo.city info)) \<and>
           (Address.city a = None \<and> truthy truthy_string (town a) \<and> village a \<noteq> None \<longrightarrow>
              LocationInfo.city info = town a)"
proof -
  have r: "reverseGeocode fetch coords = Inr (Some (build_location_info d))"
    using assms by (simp add: reverseGeocode_def reverseGeocode_try_def)
  have c: "LocationInfo.city (build_location_info d) = resolve_city a"
    using assms(4) by (simp add: build_location_info_def Let_def)
  have p1: "first_non_empty [Address.city a, town a, village a, hamlet a] \<noteq> None \<longrightarrow>
              resolve_city a = first_non_empty [Address.city a, town a, village a, hamlet a]"
    by (cases "Address.city a"; cases "town a"; cases "village a"; cases "hamlet a")
      (simp_all add: resolve_city_def js_or_first_non_empty)
  have p2: "first_non_empty [Address.city a, town a, village a, hamlet a] = None \<longrightarrow>
              \<not> truthy truthy_string (resolve_city a)"
    by (cases "Address.city a"; cases "town a"; cases "village a"; cases "hamlet a")
      (simp_all add: resolve_city_def js_or_first_non_empty truthy_string_def)
  have p3: "Address.city a = None \<and> truthy truthy_string (town a) \<and> village a \<noteq> None \<longrightarrow>
              resolve_city a = town a"
    by (cases "town a") (auto simp: resolve_city_def js_or_def)
  show ?thesis using r c p1 p2 p3 by simp
qed

theorem city_precedence_witness:
  "\<exists>info. reverseGeocode nominatim_ok \<lparr>GeoLocation.lat = Real_val 47.56, lng = Real_val 13.65\<rparr> = Inr (Some info) \<and>
          LocationInfo.city info = Some ''Hallstatt''"
proof -
  have t: "Address.city town_and_village = None \<and> truthy truthy_string (town town_and_village) \<and>
           village town_and_village \<noteq> None \<and> town town_and_village = Some ''Hallstatt''"
    by (simp add: town_and_village_def empty_address_def truthy_string_def)
  show ?thesis
    using t city_precedence [of nominatim_ok "\<lparr>GeoLocation.lat = Real_val 47.56, lng = Real_val 13.65\<rparr>"
        "\<lparr>ok = True, json = Inr (Some \<lparr>address = Some town_and_village, display_name = None\<rparr>)\<rparr>"
        "\<lparr>address = Some town_and_village, display_name = None\<rparr>" town_and_village]
    by (auto simp: nominatim_ok_def)
qed

section \<open>Properties of the AI service and of the merge\<close>

text \<open>
  Claim C9. With no \<open>API_KEY\<close> in the environment, \<open>guessLocationWithAI\<close> throws its
  ``API Key is missing'' error for every file, whatever the reader, the network and the parser
  would do, and the list of requests sent over the network is empty.
\<close>

theorem missing_credential_no_request:
  "guessLocationWithAI None readAsDataURL generateContent JSON_parse f =
     (Inl (Error ''API Key is missing. Cannot perform AI analysis.''), [])"
  by (simp add: guessLocationWithAI_def)

text \<open>
  Claim C2. For a record on display: when the AI call fails in one of the listed ways (missing
  credential, network failure, empty response, response that does not parse),
  \<open>guessLocationWithAI\<close> throws; and whenever it throws, \<open>handleAiGuess\<close> leaves the record as it
  was, so \<open>exifLocation\<close>, \<open>exifDate\<close> and \<open>exifDetails\<close> (and every other field) are
  unchanged, and it sets the error message shown to the user.
\<close>

theorem ai_failure_keeps_record:
  assumes "data s = Some d"
  shows "(ai_call_fails API_KEY readAsDataURL generateContent JSON_parse (imageFile d) \<longrightarrow>
            (\<exists>e. fst (guessLocationWithAI API_KEY readAsDataURL generateContent JSON_parse
                        (imageFile d)) = Inl e)) \<and>
         ((\<exists>e. fst (guessLocationWithAI API_KEY readAsDataURL generateContent JSON_parse
                      (imageFile d)) = Inl e) \<longrightarrow>
            data (handleAiGuess API_KEY readAsDataURL generateContent JSON_parse s) = Some d \<and>
            errorMsg (handleAiGuess API_KEY readAsDataURL generateContent JSON_parse s) =
              Some ''AI analysis failed. Please try again or use a different image.'')"
proof (intro conjI impI)
  assume "ai_call_fails API_KEY readAsDataURL generateContent JSON_parse (imageFile d)"
  then show "\<exists>e. fst (guessLocationWithAI API_KEY readAsDataURL generateContent JSON_parse
                        (imageFile d)) = Inl e"
    by (auto simp: ai_call_fails_def guessLocationWithAI_def truthy_string_def Let_def isl_def
        split: option.splits sum.splits)
next
  assume "\<exists>e. fst (guessLocationWithAI API_KEY readAsDataURL generateContent JSON_parse
                      (imageFile d)) = Inl e"
  then obtain e where e: "fst (guessLocationWithAI API_KEY readAsDataURL generateContent
                                 JSON_parse (imageFile d)) = Inl e" ..
  show "data (handleAiGuess API_KEY readAsDataURL generateContent JSON_parse s) = Some d"
    using assms e by (simp add: handleAiGuess_def Let_def)
  show "errorMsg (handleAiGuess API_KEY readAsDataURL generateContent JSON_parse s) =
          Some ''AI analysis failed. Please try again or use a different image.''"
    using assms e by (simp add: handleAiGuess_def Let_def)
qed

theorem ai_failure_keeps_record_witness:
  "ai_call_fails None (\<lambda>f. Inr ''data:image/jpeg;base64,AAAA'') gemini_paris (\<lambda>t. Inr paris_guess) photo \<and>
   data (handleAiGuess None (\<lambda>f. Inr ''data:image/jpeg;base64,AAAA'') gemini_paris (\<lambda>t. Inr paris_guess)
           (initial_app\<lparr>appState := RESULT, data := Some bare_record\<rparr>)) = Some bare_record"
proof -
  have f: "ai_call_fails None (\<lambda>f. Inr ''data:image/jpeg;base64,AAAA'') gemini_paris (\<lambda>t. Inr paris_guess) photo"
    by (simp add: ai_call_fails_def)
  have d: "data (initial_app\<lparr>appState := RESULT, data := Some bare_record\<rparr>) = Some bare_record"
    by simp
  have i: "imageFile bare_record = photo"
    by (simp add: bare_record_def)
  show ?thesis
    using f ai_failure_keeps_record [OF d, of None "\<lambda>f. Inr ''data:image/jpeg;base64,AAAA''"
        gemini_paris "\<lambda>t. Inr paris_guess"]
    by (simp add: i)
qed

lemma merge_ai_guess_frame:
  "\<exists>p. merge_ai_guess result (Some prev) = Some p \<and>
       exifDate p = exifDate prev \<and>
       ProcessedImage.exifDetails p = ProcessedImage.exifDetails prev \<and>
       imageFile p = imageFile prev \<and> gpsFound p = gpsFound prev \<and>
       aiGuessed p = Some True \<and> aiConfidence p = Some (confidence result) \<and>
       aiReasoning p = Some (reasoning result)"
  by (simp add: merge_ai_guess_def)

text \<open>
  Claim C4. The merge should set \<open>exifLocation\<close> to the guessed coordinate exactly when the
  guess has both a latitude and a longitude. The updater tests the two numbers for truthiness:
  a guess on the equator, with latitude \<open>0\<close> and longitude \<open>32.5\<close> both provided, leaves
  \<open>exifLocation\<close> absent.
\<close>

theorem ai_guess_on_equator_dropped:
  "AIAnalysisResult.lat equator_guess = Some (Real_val 0) \<and>
   AIAnalysisResult.lng equator_guess = Some (Real_val 32.5) \<and>
   map_option exifLocation (merge_ai_guess equator_guess (Some bare_record)) = Some None"
  by (simp add: merge_ai_guess_def equator_guess_def)

text \<open>
  Claim C10. After the merge the record's \<open>locationInfo\<close> is the object with the single
  property \<open>displayName\<close>, the AI's \<open>locationName\<close>: whatever city, state or country the
  earlier \<open>locationInfo\<close> held is gone.
\<close>

theorem merge_replaces_locationInfo:
  "\<exists>p. merge_ai_guess result (Some prev) = Some p \<and>
       locationInfo p =
         Some \<lparr>LocationInfo.city = None, state = None, country = None,
               displayName = locationName result\<rparr>"
  by (simp add: merge_ai_guess_def)

section \<open>The provenance of the coordinate\<close>

text \<open>The handlers of the first part are their two halves run one after the other.\<close>

lemma processFile_split:
  "processFile createObjectURL parse fetch f s =
     processFile_settle createObjectURL parse fetch f (processFile_start s)"
  by (simp add: processFile_def processFile_settle_def processFile_start_def Let_def
      split: sum.splits option.splits)

lemma handleAiGuess_split:
  "handleAiGuess API_KEY readAsDataURL generateContent JSON_parse s =
     (case data s of
        None \<Rightarrow> s
      | Some d \<Rightarrow>
          handleAiGuess_settle API_KEY readAsDataURL generateContent JSON_parse (imageFile d)
            (s\<lparr>appState := ANALYZING\<rparr>))"
  by (simp add: handleAiGuess_def handleAiGuess_settle_def Let_def split: option.splits sum.splits)

lemma run_ok_initial: "run_ok parse initial_run"
  by (auto simp: run_ok_def initial_run_def initial_app_def)

lemma run_ok_begin_upload: "run_ok parse r \<Longrightarrow> run_ok parse (begin_upload f r)"
  by (auto simp: run_ok_def begin_upload_def processFile_start_def split: option.splits)

lemma run_ok_settle_upload:
  assumes "run_ok parse r"
  shows "run_ok parse (settle_upload createObjectURL parse fetch f r)"
proof (cases "extractImageMetadata parse f")
  case (Inl e)
  then show ?thesis using assms
    by (auto simp: run_ok_def settle_upload_def processFile_settle_def split: option.splits)
next
  case (Inr m)
  then have el: "embedded_location parse f = location m"
    by (simp add: embedded_location_def)
  show ?thesis
  proof (cases "case location m of None \<Rightarrow> Inr None | Some loc \<Rightarrow> reverseGeocode fetch loc")
    case (Inl e)
    then show ?thesis using assms Inr
      by (auto simp: run_ok_def settle_upload_def processFile_settle_def split: option.splits)
  next
    case inner: (Inr info)
    show ?thesis using assms Inr inner el
      by (auto simp: run_ok_def settle_upload_def processFile_settle_def)
  qed
qed

lemma run_ok_begin_guess:
  assumes "run_ok parse r" and "ai_button_rendered (app r)"
  shows "run_ok parse (begin_guess r)"
proof -
  from assms(2) obtain d where d: "data (app r) = Some d" "\<not> gpsFound d"
    by (auto simp: ai_button_rendered_def split: option.splits)
  with assms(1) have "embedded_location parse (imageFile d) = None"
    by (simp add: run_ok_def)
  then show ?thesis using assms(1) d
    by (auto simp: run_ok_def begin_guess_def split: option.splits)
qed

lemma run_ok_settle_guess:
  assumes "run_ok parse r" and "f \<in> set (guessesInFlight r)"
  shows "run_ok parse (settle_guess API_KEY readAsDataURL generateContent JSON_parse f r)"
proof -
  have n: "embedded_location parse f = None"
    using assms by (simp add: run_ok_def)
  have fl: "\<forall>g \<in> set (remove1 f (guessesInFlight r)). embedded_location parse g = None"
    using assms(1) by (auto simp: run_ok_def dest: notin_set_remove1)
  show ?thesis
  proof (cases "fst (guessLocationWithAI API_KEY readAsDataURL generateContent JSON_parse f)")
    case (Inl e)
    then show ?thesis using assms(1) fl
      by (auto simp: run_ok_def settle_guess_def handleAiGuess_settle_def reply_is_stale_def
          split: option.splits)
  next
    case (Inr result)
    show ?thesis
    proof (cases "data (app r)")
      case None
      then show ?thesis using Inr fl
        by (auto simp: run_ok_def settle_guess_def handleAiGuess_settle_def merge_ai_guess_def)
    next
      case (Some d)
      then show ?thesis using Inr fl n assms(1)
        by (auto simp: run_ok_def settle_guess_def handleAiGuess_settle_def merge_ai_guess_def
            reply_is_stale_def)
    qed
  qed
qed

lemma run_ok_click_reset: "run_ok parse r \<Longrightarrow> run_ok parse (click_reset r)"
  by (auto simp: run_ok_def click_reset_def resetApp_def split: option.splits)

lemma run_ok_click_toggle: "run_ok parse r \<Longrightarrow> run_ok parse (click_toggle r)"
  by (auto simp: run_ok_def click_toggle_def toggleStripper_def Let_def split: option.splits)

lemma run_ok_begin_url: "run_ok parse r \<Longrightarrow> run_ok parse (begin_url u r)"
  by (auto simp: run_ok_def begin_url_def split: option.splits)

lemma run_ok_fail_url: "run_ok parse r \<Longrightarrow> run_ok parse (fail_url u r)"
  by (auto simp: run_ok_def fail_url_def split: option.splits)

lemma run_ok_load_url: "run_ok parse r \<Longrightarrow> run_ok parse (load_url u f r)"
  by (auto simp: run_ok_def load_url_def begin_upload_def processFile_start_def split: option.splits)

lemma run_ok_reject_drop: "run_ok parse r \<Longrightarrow> run_ok parse (reject_drop r)"
  by (auto simp: run_ok_def reject_drop_def split: option.splits)

lemma run_ok_fail_strip: "run_ok parse r \<Longrightarrow> run_ok parse (fail_strip r)"
  by (auto simp: run_ok_def fail_strip_def split: option.splits)

lemma reachable_run_ok: "reachable parse r \<Longrightarrow> run_ok parse r"
proof (induction rule: reachable.induct)
  case start
  show ?case by (rule run_ok_initial)
next
  case (upload r f)
  then show ?case by (simp add: run_ok_begin_upload)
next
  case (uploaded r f createObjectURL fetch)
  then show ?case by (simp add: run_ok_settle_upload)
next
  case (guess r)
  then show ?case by (simp add: run_ok_begin_guess)
next
  case (guessed r f API_KEY readAsDataURL generateContent JSON_parse)
  then show ?case by (simp add: run_ok_settle_guess)
next
  case (reset r)
  then show ?case by (simp add: run_ok_click_reset)
next
  case (toggle r)
  then show ?case by (simp add: run_ok_click_toggle)
next
  case (url r u)
  then show ?case by (simp add: run_ok_begin_url)
next
  case (url_failed r u)
  then show ?case by (simp add: run_ok_fail_url)
next
  case (url_loaded r u f)
  then show ?case by (simp add: run_ok_load_url)
next
  case (drop_rejected r)
  then show ?case by (simp add: run_ok_reject_drop)
next
  case (strip_failed r)
  then show ?case by (simp add: run_ok_fail_strip)
qed

text \<open>
  Claim C3, as the code has it. In every run of the interface, the record on display has
  \<open>gpsFound\<close> exactly when the embedded tags of its file give a coordinate; the AI button is
  rendered, so the guess can be invoked, only on a record without \<open>gpsFound\<close>, and every AI
  call in flight was made with a file whose tags give no coordinate; a coordinate shown without
  \<open>gpsFound\<close> belongs to a record with \<open>aiGuessed\<close>. As long as every AI reply has been merged
  into the record of the file its call was made with, a record with \<open>aiGuessed\<close> has no
  \<open>gpsFound\<close> and a record with \<open>gpsFound\<close> shows the coordinate of its tags.
\<close>

theorem gps_and_ai_provenance:
  assumes "reachable parse r" and "data (app r) = Some d"
  shows "gpsFound d = (embedded_location parse (imageFile d) \<noteq> None) \<and>
         (ai_button_rendered (app r) \<longrightarrow> \<not> gpsFound d) \<and>
         (\<forall>f \<in> set (guessesInFlight r). embedded_location parse f = None) \<and>
         (\<not> gpsFound d \<and> exifLocation d \<noteq> None \<longrightarrow> aiGuessed d = Some True) \<and>
         (\<not> staleReply r \<longrightarrow>
            (aiGuessed d = Some True \<longrightarrow> \<not> gpsFound d) \<and>
            (gpsFound d \<longrightarrow> exifLocation d = embedded_location parse (imageFile d)))"
proof -
  have "run_ok parse r" using assms(1) by (rule reachable_run_ok)
  then show ?thesis using assms(2)
    by (auto simp: run_ok_def ai_button_rendered_def)
qed

text \<open>The sample runs, evaluated.\<close>

lemma embedded_by_name:
  "embedded_location tags_by_name screenshot = None"
  "embedded_location tags_by_name photo =
     Some \<lparr>GeoLocation.lat = Real_val 37.7749, lng = Real_val (-122.4194)\<rparr>"
  by (simp_all add: embedded_location_def extractImageMetadata_def extract_try_def
      extract_location_def tags_by_name_def screenshot_def photo_def sf_tags_def no_tags_def)

lemma screenshot_shown_eq:
  "screenshot_shown =
     \<lparr>app = \<lparr>appState = RESULT,
              data = Some \<lparr>imageFile = screenshot, previewUrl = ''blob:1'', exifLocation = None,
                           exifDate = None, exifDetails = None, locationInfo = None,
                           gpsFound = False, aiGuessed = None, aiConfidence = None,
                           aiReasoning = None\<rparr>,
              errorMsg = None, showStripper = False\<rparr>,
      guessesInFlight = [], uploadsInFlight = [], urlsInFlight = [], staleReply = False\<rparr>"
  by (simp add: screenshot_shown_def settle_upload_def begin_upload_def processFile_start_def
      processFile_settle_def initial_run_def initial_app_def extractImageMetadata_def
      extract_try_def extract_location_def extract_date_def extract_details_def
      tags_by_name_def screenshot_def)

lemma guess_pending_eq:
  "guess_pending =
     \<lparr>app = \<lparr>appState = ANALYZING,
              data = Some \<lparr>imageFile = screenshot, previewUrl = ''blob:1'', exifLocation = None,
                           exifDate = None, exifDetails = None, locationInfo = None,
                           gpsFound = False, aiGuessed = None, aiConfidence = None,
                           aiReasoning = None\<rparr>,
              errorMsg = None, showStripper = False\<rparr>,
      guessesInFlight = [screenshot], uploadsInFlight = [], urlsInFlight = [],
      staleReply = False\<rparr>"
  by (simp add: guess_pending_def screenshot_shown_eq begin_guess_def)

lemma eiffel_reply:
  "fst (guessLocationWithAI (Some ''key'') (\<lambda>f. Inr ''data:image/png;base64,AAAA'')
          gemini_paris (\<lambda>t. Inr eiffel_guess) screenshot) = Inr eiffel_guess"
  by (simp add: guessLocationWithAI_def fileToGenerativePart_def truthy_string_def
      gemini_paris_def Let_def)

lemma timely_run_eq:
  "timely_run =
     \<lparr>app = \<lparr>appState = RESULT,
              data = Some \<lparr>imageFile = screenshot, previewUrl = ''blob:1'',
                           exifLocation = Some \<lparr>GeoLocation.lat = Real_val 48.8584,
                                                lng = Real_val 2.2945\<rparr>,
                           exifDate = None, exifDetails = None,
                           locationInfo = Some \<lparr>LocationInfo.city = None, state = None,
                                                country = None, displayName = ''Paris, France''\<rparr>,
                           gpsFound = False, aiGuessed = Some True,
                           aiConfidence = Some (Real_val 72),
                           aiReasoning = Some ''Eiffel Tower visible''\<rparr>,
              errorMsg = None, showStripper = False\<rparr>,
      guessesInFlight = [], uploadsInFlight = [], urlsInFlight = [], staleReply = False\<rparr>"
  by (simp add: timely_run_def gemini_eiffel_def settle_guess_def guess_pending_eq
      handleAiGuess_settle_def eiffel_reply merge_ai_guess_def reply_is_stale_def)
    (simp add: eiffel_guess_def)

lemma photo_uploading_eq:
  "photo_uploading =
     \<lparr>app = \<lparr>appState = ANALYZING, data = None, errorMsg = None, showStripper = False\<rparr>,
      guessesInFlight = [screenshot], uploadsInFlight = [photo], urlsInFlight = [],
      staleReply = False\<rparr>"
  by (simp add: photo_uploading_def click_reset_def resetApp_def guess_pending_eq
      begin_upload_def processFile_start_def)

lemma photo_shown_eq:
  "photo_shown =
     \<lparr>app = \<lparr>appState = RESULT,
              data = Some \<lparr>imageFile = photo, previewUrl = ''blob:2'',
                           exifLocation = Some \<lparr>GeoLocation.lat = Real_val 37.7749,
                                                lng = Real_val (-122.4194)\<rparr>,
                           exifDate = None, exifDetails = None, locationInfo = None,
                           gpsFound = True, aiGuessed = None, aiConfidence = None,
                           aiReasoning = None\<rparr>,
              errorMsg = None, showStripper = False\<rparr>,
      guessesInFlight = [screenshot], uploadsInFlight = [], urlsInFlight = [],
      staleReply = False\<rparr>"
  by (simp add: photo_shown_def settle_upload_def photo_uploading_eq processFile_settle_def
      extractImageMetadata_def extract_try_def extract_location_def extract_date_def
      extract_details_def hasData_def tags_by_name_def photo_def sf_tags_def no_tags_def
      reverseGeocode_def reverseGeocode_try_def nominatim_down_def)

lemma race_run_eq:
  "race_run =
     \<lparr>app = \<lparr>appState = RESULT,
              data = Some \<lparr>imageFile = photo, previewUrl = ''blob:2'',
                           exifLocation = Some \<lparr>GeoLocation.lat = Real_val 48.8584,
                                                lng = Real_val 2.2945\<rparr>,
                           exifDate = None, exifDetails = None,
                           locationInfo = Some \<lparr>LocationInfo.city = None, state = None,
                                                country = None, displayName = ''Paris, France''\<rparr>,
                           gpsFound = True, aiGuessed = Some True,
                           aiConfidence = Some (Real_val 72),
                           aiReasoning = Some ''Eiffel Tower visible''\<rparr>,
              errorMsg = None, showStripper = False\<rparr>,
      guessesInFlight = [], uploadsInFlight = [], urlsInFlight = [], staleReply = True\<rparr>"
  by (simp add: race_run_def gemini_eiffel_def settle_guess_def photo_shown_eq
      handleAiGuess_settle_def eiffel_reply merge_ai_guess_def reply_is_stale_def)
    (simp add: eiffel_guess_def photo_def screenshot_def)

lemma reachable_guess_pending: "reachable tags_by_name guess_pending"
proof -
  have z: "upload_zone_rendered (app initial_run)"
    by (simp add: upload_zone_rendered_def initial_run_def initial_app_def)
  have u: "reachable tags_by_name (begin_upload screenshot initial_run)"
    by (rule reachable.upload [OF reachable.start z])
  have i: "screenshot \<in> set (uploadsInFlight (begin_upload screenshot initial_run))"
    by (simp add: begin_upload_def)
  have s: "reachable tags_by_name screenshot_shown"
    unfolding screenshot_shown_def by (rule reachable.uploaded [OF u i])
  have b: "ai_button_rendered (app screenshot_shown)"
    by (simp add: screenshot_shown_eq ai_button_rendered_def)
  show ?thesis
    unfolding guess_pending_def by (rule reachable.guess [OF s b])
qed

lemma reachable_timely_run: "reachable tags_by_name timely_run"
proof -
  have i: "screenshot \<in> set (guessesInFlight guess_pending)"
    by (simp add: guess_pending_eq)
  show ?thesis
    unfolding timely_run_def gemini_eiffel_def
    by (rule reachable.guessed [OF reachable_guess_pending i])
qed

lemma reachable_photo_shown: "reachable tags_by_name photo_shown"
proof -
  have r: "reachable tags_by_name (click_reset guess_pending)"
    by (rule reachable.reset [OF reachable_guess_pending])
  have z: "upload_zone_rendered (app (click_reset guess_pending))"
    by (simp add: upload_zone_rendered_def click_reset_def resetApp_def)
  have u: "reachable tags_by_name photo_uploading"
    unfolding photo_uploading_def by (rule reachable.upload [OF r z])
  have i: "photo \<in> set (uploadsInFlight photo_uploading)"
    by (simp add: photo_uploading_eq)
  show ?thesis
    unfolding photo_shown_def by (rule reachable.uploaded [OF u i])
qed

lemma reachable_race_run: "reachable tags_by_name race_run"
proof -
  have g: "screenshot \<in> set (guessesInFlight photo_shown)"
    by (simp add: photo_shown_eq)
  show ?thesis
    unfolding race_run_def gemini_eiffel_def
    by (rule reachable.guessed [OF reachable_photo_shown g])
qed

text \<open>
  Without that proviso the invariant fails. The AI button is clicked on a screenshot without
  tags; while the call is in flight the logo resets the interface and a photo with GPS tags is
  uploaded and analysed; the late reply is merged into the photo's record, which then has
  \<open>gpsFound\<close> and \<open>aiGuessed\<close> together and shows the AI's coordinate in place of the one
  of its tags.
\<close>

theorem late_reply_overrides_gps:
  "reachable tags_by_name race_run \<and>
   map_option imageFile (data (app race_run)) = Some photo \<and>
   embedded_location tags_by_name photo =
     Some \<lparr>GeoLocation.lat = Real_val 37.7749, lng = Real_val (-122.4194)\<rparr> \<and>
   map_option gpsFound (data (app race_run)) = Some True \<and>
   map_option aiGuessed (data (app race_run)) = Some (Some True) \<and>
   map_option exifLocation (data (app race_run)) =
     Some (Some \<lparr>GeoLocation.lat = Real_val 48.8584, lng = Real_val 2.2945\<rparr>)"
  using reachable_race_run by (simp add: race_run_eq embedded_by_name)

theorem gps_and_ai_provenance_witness:
  "reachable tags_by_name timely_run \<and> \<not> staleReply timely_run \<and>
   map_option aiGuessed (data (app timely_run)) = Some (Some True) \<and>
   map_option gpsFound (data (app timely_run)) = Some False \<and>
   embedded_location tags_by_name screenshot = None \<and>
   reachable tags_by_name photo_shown \<and> \<not> staleReply photo_shown \<and>
   map_option gpsFound (data (app photo_shown)) = Some True \<and>
   map_option exifLocation (data (app photo_shown)) = Some (embedded_location tags_by_name photo) \<and>
   guessesInFlight photo_shown = [screenshot]"
proof -
  have t: "data (app timely_run) =
             Some \<lparr>imageFile = screenshot, previewUrl = ''blob:1'',
                   exifLocation = Some \<lparr>GeoLocation.lat = Real_val 48.8584,
                                        lng = Real_val 2.2945\<rparr>,
                   exifDate = None, exifDetails = None,
                   locationInfo = Some \<lparr>LocationInfo.city = None, state = None,
                                        country = None, displayName = ''Paris, France''\<rparr>,
                   gpsFound = False, aiGuessed = Some True,
                   aiConfidence = Some (Real_val 72),
                   aiReasoning = Some ''Eiffel Tower visible''\<rparr>"
    by (simp add: timely_run_eq)
  have p: "data (app photo_shown) =
             Some \<lparr>imageFile = photo, previewUrl = ''blob:2'',
                   exifLocation = Some \<lparr>GeoLocation.lat = Real_val 37.7749,
                                        lng = Real_val (-122.4194)\<rparr>,
                   exifDate = None, exifDetails = None, locationInfo = None,
                   gpsFound = True, aiGuessed = None, aiConfidence = None,
                   aiReasoning = None\<rparr>"
    by (simp add: photo_shown_eq)
  have rp: "reachable tags_by_name photo_shown"
    by (rule reachable_photo_shown)
  have st: "\<not> staleReply timely_run" "\<not> staleReply photo_shown"
    by (simp_all add: timely_run_eq photo_shown_eq)
  show ?thesis
    using reachable_timely_run rp st gps_and_ai_provenance [OF reachable_timely_run t]
      gps_and_ai_provenance [OF rp p]
    by (simp add: t p photo_shown_eq)
qed

end
